theory Spec2Isabelle
  imports Complex_Main
begin

section \<open>JavaScript values\<close>

text \<open>
  The connector \<^verbatim>\<open>connectHitsPerPage.ts\<close> is typed, but its checks run on
  whatever JavaScript value reaches them: it tests truthiness (\<^verbatim>\<open>!value\<close>,
  \<^verbatim>\<open>a || b\<close>), strict equality (\<^verbatim>\<open>===\<close>) and numeric coercion
  (\<^verbatim>\<open>Number(v)\<close>). The values are therefore modelled as the primitive values
  of the language. A number is a not-a-number, an infinity or a finite value; finite
  values are rationals (every double is one, and the code does no arithmetic, so no
  rounding is involved), and the two zeros of the language are one value here, as they
  are for every operation the connector applies to them.
\<close>

datatype number = NaN | PosInfinity | NegInfinity | Finite rat

datatype jsval = Undefined | Null | Boolean bool | Num number | Str string

text \<open>\<^verbatim>\<open>ToBoolean\<close>: the falsy values are undefined, null, false, 0, NaN and the empty string.\<close>

fun truthy :: "jsval \<Rightarrow> bool" where
  "truthy Undefined = False"
| "truthy Null = False"
| "truthy (Boolean b) = b"
| "truthy (Num n) = (n \<noteq> NaN \<and> n \<noteq> Finite 0)"
| "truthy (Str s) = (s \<noteq> [])"

text \<open>
  Strict equality \<^verbatim>\<open>a === b\<close>: the same type and the same value, except that NaN is
  equal to nothing, itself included.
\<close>

definition strict_equals :: "jsval \<Rightarrow> jsval \<Rightarrow> bool" where
  "strict_equals a b = (a = b \<and> a \<noteq> Num NaN)"

text \<open>Strict equality of two numbers, as in \<^verbatim>\<open>Number(a) === Number(b)\<close>.\<close>

definition number_equals :: "number \<Rightarrow> number \<Rightarrow> bool" where
  "number_equals a b = (a = b \<and> a \<noteq> NaN)"

text \<open>
  \<^verbatim>\<open>Number(v)\<close>. The numeric value of a string is the language's
  \<^verbatim>\<open>StringToNumber\<close>, a fixed function of the string that rounds to a double; it
  is a parameter of the model, so that every theorem holds for whatever it computes.
\<close>

fun Number :: "(string \<Rightarrow> number) \<Rightarrow> jsval \<Rightarrow> number" where
  "Number StringToNumber Undefined = NaN"
| "Number StringToNumber Null = Finite 0"
| "Number StringToNumber (Boolean b) = (if b then Finite 1 else Finite 0)"
| "Number StringToNumber (Num n) = n"
| "Number StringToNumber (Str s) = StringToNumber s"

text \<open>
  On the empty string \<^verbatim>\<open>StringToNumber\<close> is 0. Concrete runs below pass this
  function where a string-to-number function is needed; the only string they meet is
  the empty one.
\<close>

definition StringToNumber_empty :: "string \<Rightarrow> number" where
  "StringToNumber_empty s = (if s = [] then Finite 0 else NaN)"

section \<open>Data model\<close>

text \<open>
  \<^verbatim>\<open>HitsPerPageWidgetOptionsItem\<close>: \<^verbatim>\<open>{ label, value?, default? }\<close>. An
  absent field reads as undefined.
\<close>

record Item =
  item_label :: string
  item_value :: jsval
  item_default :: jsval

text \<open>An item as passed to the rendering function: \<^verbatim>\<open>{ ...item, isRefined }\<close>.\<close>

record RenderedItem =
  rendered_label :: string
  rendered_value :: jsval
  rendered_default :: jsval
  isRefined :: bool

text \<open>
  \<^verbatim>\<open>widgetParams\<close>: the \<^verbatim>\<open>items\<close> option is an array of items or some other
  value (absent is undefined); \<^verbatim>\<open>transformItems\<close> is optional.
\<close>

datatype items_option = NotArray jsval | Array "Item list"

record WidgetParams =
  params_items :: items_option
  params_transformItems :: "(RenderedItem list \<Rightarrow> RenderedItem list) option"

text \<open>
  \<^verbatim>\<open>SearchParameters\<close> of the search helper and the shared \<^verbatim>\<open>uiState\<close>: the
  connector reads and writes their \<^verbatim>\<open>hitsPerPage\<close> field only, an absent field
  reads as undefined, and every other field is the record's extension part.
\<close>

record SearchParameters =
  hitsPerPage :: jsval

record UiState =
  uiState_hitsPerPage :: jsval

text \<open>
  \<^verbatim>\<open>state.setQueryParameter('hitsPerPage', v)\<close> and
  \<^verbatim>\<open>state.setQueryParameters({ hitsPerPage: v })\<close> of the search helper's package return
  the parameters with the field replaced. (The package is not part of the connector;
  what it may do to the value it is given beyond storing it is outside this model.)
\<close>

definition setQueryParameter ::
  "'a SearchParameters_scheme \<Rightarrow> jsval \<Rightarrow> 'a SearchParameters_scheme" where
  "setQueryParameter sp v = sp\<lparr>hitsPerPage := v\<rparr>"

definition setQueryParameters ::
  "'a SearchParameters_scheme \<Rightarrow> jsval \<Rightarrow> 'a SearchParameters_scheme" where
  "setQueryParameters sp v = sp\<lparr>hitsPerPage := v\<rparr>"

text \<open>
  The helper holds the current parameters; \<^verbatim>\<open>helper.setQueryParameter\<close> replaces
  them and returns the helper, \<^verbatim>\<open>helper.search()\<close> starts a search with the
  parameters it holds at that moment, recorded in \<open>searches\<close>.
\<close>

record 'sp Helper =
  helper_state :: 'sp
  searches :: "'sp list"

definition helper_setQueryParameter ::
  "'a SearchParameters_scheme Helper \<Rightarrow> jsval \<Rightarrow> 'a SearchParameters_scheme Helper" where
  "helper_setQueryParameter h v = h\<lparr>helper_state := setQueryParameter (helper_state h) v\<rparr>"

definition search :: "'sp Helper \<Rightarrow> 'sp Helper" where
  "search h = h\<lparr>searches := searches h @ [helper_state h]\<rparr>"

text \<open>\<^verbatim>\<open>results\<close> of a search: the connector reads \<^verbatim>\<open>nbHits\<close>.\<close>

record Results =
  nbHits :: jsval

section \<open>Errors\<close>

text \<open>
  Modelled from the spec: \<^verbatim>\<open>createDocumentationMessageGenerator\<close> of
  \<^verbatim>\<open>lib/utils\<close>, which makes \<^verbatim>\<open>withUsage\<close> for the \<^verbatim>\<open>hits-per-page\<close>
  connector, is not among the sources. The spec calls what it returns a
  documentation-referencing message; here \<open>withUsage m\<close> is that message, made from
  the text \<open>m\<close> of the call site.
\<close>

datatype usage_message = withUsage string

text \<open>
  \<^verbatim>\<open>throw new Error(withUsage(m))\<close> is \<open>Error (withUsage m)\<close>. Calling a variable that
  holds undefined raises a \<open>TypeError\<close>.
\<close>

datatype error = Error usage_message | TypeError

section \<open>The widget factory\<close>

text \<open>
  The variables one widget instance closes over: \<^verbatim>\<open>widgetParams\<close>, the working
  list \<^verbatim>\<open>let items\<close>, \<^verbatim>\<open>const defaultItem\<close>, and the two variables
  \<^verbatim>\<open>let setHitsPerPage\<close> and \<^verbatim>\<open>let createURLFactory\<close>, undefined (\<open>None\<close>)
  until \<^verbatim>\<open>init\<close> assigns them.
\<close>

record 'sp Widget =
  widgetParams :: WidgetParams
  items :: "Item list"
  defaultItem :: Item
  setHitsPerPage_var :: "(jsval \<Rightarrow> 'sp Helper \<Rightarrow> 'sp Helper) option"
  createURLFactory_var :: "('sp \<Rightarrow> jsval \<Rightarrow> string) option"

text \<open>\<^verbatim>\<open>item => item.default === true\<close>\<close>

definition is_default :: "Item \<Rightarrow> bool" where
  "is_default item = strict_equals (item_default item) (Boolean True)"

text \<open>
  The factory \<^verbatim>\<open>(widgetParams) => { ... }\<close> that \<^verbatim>\<open>connectHitsPerPage(renderFn,
  unmountFn)\<close> returns. The rendering function is taken to be a function, so that
  \<^verbatim>\<open>checkRendering\<close> has passed.
\<close>

definition connectHitsPerPage :: "WidgetParams \<Rightarrow> error + 'sp Widget" where
  "connectHitsPerPage params =
     (case params_items params of
        NotArray v \<Rightarrow>
          Inl (Error (withUsage ''The `items` option expects an array of objects.''))
      | Array userItems \<Rightarrow>
          (let defaultItems = filter is_default userItems in
           if length defaultItems = 0 then
             Inl (Error (withUsage ''A default value must be specified in `items`.''))
           else if length defaultItems > 1 then
             Inl (Error (withUsage ''More than one default value is specified in `items`.''))
           else
             Inr \<lparr>widgetParams = params, items = userItems, defaultItem = defaultItems ! 0,
                  setHitsPerPage_var = None, createURLFactory_var = None\<rparr>))"

section \<open>Normalising the items\<close>

text \<open>
  \<^verbatim>\<open>const { transformItems = items => items } = widgetParams\<close>: the identity when the
  option is absent.
\<close>

definition transformItems :: "WidgetParams \<Rightarrow> RenderedItem list \<Rightarrow> RenderedItem list" where
  "transformItems params =
     (case params_transformItems params of None \<Rightarrow> (\<lambda>items. items) | Some f \<Rightarrow> f)"

text \<open>
  \<^verbatim>\<open>normalizeItems({ hitsPerPage })\<close> maps the working list (the closure's
  \<^verbatim>\<open>items\<close>, an argument here) to
  \<^verbatim>\<open>{ ...item, isRefined: Number(item.value) === Number(hitsPerPage) }\<close>.
\<close>

definition normalizeItems ::
  "(string \<Rightarrow> number) \<Rightarrow> Item list \<Rightarrow> 'a SearchParameters_scheme \<Rightarrow> RenderedItem list" where
  "normalizeItems StringToNumber its state =
     map (\<lambda>item.
            \<lparr>rendered_label = item_label item,
             rendered_value = item_value item,
             rendered_default = item_default item,
             isRefined = number_equals (Number StringToNumber (item_value item))
                                       (Number StringToNumber (hitsPerPage state))\<rparr>)
         its"

section \<open>The callbacks built by init\<close>

text \<open>
  \<^verbatim>\<open>setHitsPerPage = value => !value && value !== 0
     ? helper.setQueryParameter('hitsPerPage', undefined).search()
     : helper.setQueryParameter('hitsPerPage', value).search()\<close>,
  as a function of the helper it closes over.
\<close>

definition setHitsPerPage ::
  "jsval \<Rightarrow> 'a SearchParameters_scheme Helper \<Rightarrow> 'a SearchParameters_scheme Helper" where
  "setHitsPerPage v helper =
     (if \<not> truthy v \<and> \<not> strict_equals v (Num (Finite 0))
      then search (helper_setQueryParameter helper Undefined)
      else search (helper_setQueryParameter helper v))"

text \<open>
  \<^verbatim>\<open>createURLFactory = helperState => value =>
     createURL(helperState.setQueryParameter('hitsPerPage',
       !value && value !== 0 ? undefined : value))\<close>,
  with the \<^verbatim>\<open>createURL\<close> that \<^verbatim>\<open>init\<close> received.
\<close>

definition createURLFactory ::
  "('a SearchParameters_scheme \<Rightarrow> string) \<Rightarrow> 'a SearchParameters_scheme \<Rightarrow> jsval \<Rightarrow> string" where
  "createURLFactory createURL_arg helperState v =
     createURL_arg (setQueryParameter helperState
       (if \<not> truthy v \<and> \<not> strict_equals v (Num (Finite 0)) then Undefined else v))"

section \<open>Effects\<close>

text \<open>
  The two diagnostics of \<^verbatim>\<open>init\<close>: that \<^verbatim>\<open>hitsPerPage\<close> is not defined, and
  that the items do not hold the value coming from the state (the message quotes it).
\<close>

datatype message = HitsPerPageNotDefined | HitsPerPageNotInItems jsval

text \<open>What the rendering function receives, beside the flag \<^verbatim>\<open>isFirstRender\<close>.
  (\<^verbatim>\<open>instantSearchInstance\<close> is handed through untouched and left out.)\<close>

record 'sp RenderingOptions =
  rendering_items :: "RenderedItem list"
  refine :: "(jsval \<Rightarrow> 'sp Helper \<Rightarrow> 'sp Helper) option"
  createURL :: "jsval \<Rightarrow> string"
  hasNoResults :: bool
  rendering_widgetParams :: WidgetParams

text \<open>
  What the widget does to its surroundings: the warnings it has emitted, the calls it
  has made to the rendering function \<^verbatim>\<open>renderFn(options, isFirstRender)\<close>, and how
  often it has called \<^verbatim>\<open>unmountFn\<close>.
\<close>

record 'sp World =
  console :: "message list"
  renderFn_calls :: "('sp RenderingOptions \<times> bool) list"
  unmountFn_calls :: nat

text \<open>
  Modelled from the spec: the utility \<^verbatim>\<open>warning(condition, message)\<close> of
  \<^verbatim>\<open>lib/utils\<close> is not among the sources. The spec calls what it produces a
  non-fatal diagnostic warning that is logged; the two call sites fix when: the message
  is emitted when the condition is false (\<^verbatim>\<open>warning(false, ...)\<close> is the call that
  warns in any case, and the message that \<^verbatim>\<open>hitsPerPage\<close> is not defined is
  guarded by \<^verbatim>\<open>state.hitsPerPage !== undefined\<close>).
\<close>

definition warning :: "bool \<Rightarrow> message \<Rightarrow> message list \<Rightarrow> message list" where
  "warning condition m out = (if condition then out else out @ [m])"

section \<open>The lifecycle hooks\<close>

text \<open>The item \<^verbatim>\<open>{ value: '', label: '' }\<close> that \<^verbatim>\<open>init\<close> puts in front.\<close>

definition emptyItem :: Item where
  "emptyItem = \<lparr>item_label = [], item_value = Str [], item_default = Undefined\<rparr>"

text \<open>\<^verbatim>\<open>items.some(item => Number(state.hitsPerPage) === Number(item.value))\<close>\<close>

definition isCurrentInOptions ::
  "(string \<Rightarrow> number) \<Rightarrow> Item list \<Rightarrow> 'a SearchParameters_scheme \<Rightarrow> bool" where
  "isCurrentInOptions StringToNumber its state =
     list_ex (\<lambda>item. number_equals (Number StringToNumber (hitsPerPage state))
                                   (Number StringToNumber (item_value item))) its"

text \<open>
  \<^verbatim>\<open>init({ helper, createURL, state, instantSearchInstance })\<close>: returns the widget's
  variables and the surroundings as it leaves them.
\<close>

definition init ::
  "(string \<Rightarrow> number) \<Rightarrow> 'a SearchParameters_scheme Widget \<Rightarrow>
   'a SearchParameters_scheme Helper \<Rightarrow> ('a SearchParameters_scheme \<Rightarrow> string) \<Rightarrow>
   'a SearchParameters_scheme \<Rightarrow> 'a SearchParameters_scheme World \<Rightarrow>
   'a SearchParameters_scheme Widget \<times> 'a SearchParameters_scheme World" where
  "init StringToNumber w helper createURL_arg state world =
     (let current = isCurrentInOptions StringToNumber (items w) state;
          console1 =
            (if \<not> current
             then warning False (HitsPerPageNotInItems (hitsPerPage state))
                    (warning (\<not> strict_equals (hitsPerPage state) Undefined)
                       HitsPerPageNotDefined (console world))
             else console world);
          items1 = (if \<not> current then emptyItem # items w else items w)
      in (w\<lparr>items := items1,
             setHitsPerPage_var := Some setHitsPerPage,
             createURLFactory_var := Some (createURLFactory createURL_arg)\<rparr>,
          world\<lparr>console := console1,
                renderFn_calls := renderFn_calls world @
                  [(\<lparr>rendering_items =
                        transformItems (widgetParams w) (normalizeItems StringToNumber items1 state),
                      refine = Some setHitsPerPage,
                      createURL = createURLFactory createURL_arg (helper_state helper),
                      hasNoResults = True,
                      rendering_widgetParams = widgetParams w\<rparr>, True)]\<rparr>))"

text \<open>
  \<^verbatim>\<open>render({ state, results, instantSearchInstance })\<close>. Before \<^verbatim>\<open>init\<close> the
  variable \<^verbatim>\<open>createURLFactory\<close> is undefined and calling it raises a TypeError
  before the rendering function is reached.
\<close>

definition render ::
  "(string \<Rightarrow> number) \<Rightarrow> 'a SearchParameters_scheme Widget \<Rightarrow> 'a SearchParameters_scheme \<Rightarrow>
   Results \<Rightarrow> 'a SearchParameters_scheme World \<Rightarrow> error + 'a SearchParameters_scheme World" where
  "render StringToNumber w state results world =
     (let noResults = strict_equals (nbHits results) (Num (Finite 0)) in
      case createURLFactory_var w of
        None \<Rightarrow> Inl TypeError
      | Some factory \<Rightarrow>
          Inr (world\<lparr>renderFn_calls := renderFn_calls world @
                 [(\<lparr>rendering_items =
                       transformItems (widgetParams w)
                         (normalizeItems StringToNumber (items w) state),
                     refine = setHitsPerPage_var w,
                     createURL = factory state,
                     hasNoResults = noResults,
                     rendering_widgetParams = widgetParams w\<rparr>, False)]\<rparr>))"

text \<open>\<^verbatim>\<open>dispose({ state })\<close>: calls \<^verbatim>\<open>unmountFn()\<close> and returns
  \<^verbatim>\<open>state.setQueryParameter('hitsPerPage', undefined)\<close>.\<close>

definition dispose ::
  "'a SearchParameters_scheme \<Rightarrow> 'sp World \<Rightarrow> 'sp World \<times> 'a SearchParameters_scheme" where
  "dispose state world =
     (world\<lparr>unmountFn_calls := Suc (unmountFn_calls world)\<rparr>, setQueryParameter state Undefined)"

text \<open>\<^verbatim>\<open>getWidgetState(uiState, { searchParameters })\<close>\<close>

definition getWidgetState ::
  "'sp Widget \<Rightarrow> 'b UiState_scheme \<Rightarrow> 'a SearchParameters_scheme \<Rightarrow> 'b UiState_scheme" where
  "getWidgetState w uiState searchParameters =
     (let current = hitsPerPage searchParameters in
      if strict_equals current Undefined \<or> strict_equals current (item_value (defaultItem w))
      then uiState
      else uiState\<lparr>uiState_hitsPerPage := current\<rparr>)"

text \<open>\<^verbatim>\<open>getWidgetSearchParameters(searchParameters, { uiState })\<close>, with
  \<^verbatim>\<open>a || b\<close> the first operand when it is truthy and the second otherwise.\<close>

definition getWidgetSearchParameters ::
  "'sp Widget \<Rightarrow> 'a SearchParameters_scheme \<Rightarrow> 'b UiState_scheme \<Rightarrow> 'a SearchParameters_scheme" where
  "getWidgetSearchParameters w searchParameters uiState =
     setQueryParameters searchParameters
       (if truthy (uiState_hitsPerPage uiState) then uiState_hitsPerPage uiState
        else item_value (defaultItem w))"

section \<open>The life of a widget instance\<close>

text \<open>
  The owning runtime calls the hooks of an instance one after another. A hook changes
  the instance's variables and its surroundings; an exception leaves both as they
  were, and the values the two state hooks return do not touch them.
\<close>

datatype ('a, 'b) hook =
    Init "'a SearchParameters_scheme Helper" "'a SearchParameters_scheme \<Rightarrow> string"
         "'a SearchParameters_scheme"
  | Render "'a SearchParameters_scheme" Results
  | Dispose "'a SearchParameters_scheme"
  | GetWidgetState "'b UiState_scheme" "'a SearchParameters_scheme"
  | GetWidgetSearchParameters "'a SearchParameters_scheme" "'b UiState_scheme"

fun step ::
  "(string \<Rightarrow> number) \<Rightarrow>
   'a SearchParameters_scheme Widget \<times> 'a SearchParameters_scheme World \<Rightarrow> ('a, 'b) hook \<Rightarrow>
   'a SearchParameters_scheme Widget \<times> 'a SearchParameters_scheme World" where
  "step StringToNumber (w, world) (Init helper createURL_arg state) =
     init StringToNumber w helper createURL_arg state world"
| "step StringToNumber (w, world) (Render state results) =
     (case render StringToNumber w state results world of
        Inl e \<Rightarrow> (w, world)
      | Inr world1 \<Rightarrow> (w, world1))"
| "step StringToNumber (w, world) (Dispose state) = (w, fst (dispose state world))"
| "step StringToNumber (w, world) (GetWidgetState uiState searchParameters) = (w, world)"
| "step StringToNumber (w, world) (GetWidgetSearchParameters searchParameters uiState) = (w, world)"

definition run ::
  "(string \<Rightarrow> number) \<Rightarrow>
   'a SearchParameters_scheme Widget \<times> 'a SearchParameters_scheme World \<Rightarrow> ('a, 'b) hook list \<Rightarrow>
   'a SearchParameters_scheme Widget \<times> 'a SearchParameters_scheme World" where
  "run StringToNumber = foldl (step StringToNumber)"

text \<open>Whether a hook is \<^verbatim>\<open>init\<close>, the one hook that assigns the closure's variables.\<close>

fun is_Init :: "('a, 'b) hook \<Rightarrow> bool" where
  "is_Init (Init helper createURL_arg state) = True"
| "is_Init (Render state results) = False"
| "is_Init (Dispose state) = False"
| "is_Init (GetWidgetState uiState searchParameters) = False"
| "is_Init (GetWidgetSearchParameters searchParameters uiState) = False"

section \<open>The example configuration\<close>

text \<open>
  The items of the spec's example,
  \<^verbatim>\<open>[{value: 6, label: "6", default: true}, {value: 12, label: "12"}]\<close>, the widget
  instance the factory builds from them, and surroundings in which nothing has
  happened yet.
\<close>

definition item6 :: Item where
  "item6 = \<lparr>item_label = ''6'', item_value = Num (Finite 6), item_default = Boolean True\<rparr>"

definition item12 :: Item where
  "item12 = \<lparr>item_label = ''12'', item_value = Num (Finite 12), item_default = Undefined\<rparr>"

definition exampleParams :: WidgetParams where
  "exampleParams = \<lparr>params_items = Array [item6, item12], params_transformItems = None\<rparr>"

definition exampleWidget :: "SearchParameters Widget" where
  "exampleWidget =
     \<lparr>widgetParams = exampleParams, items = [item6, item12], defaultItem = item6,
      setHitsPerPage_var = None, createURLFactory_var = None\<rparr>"

definition exampleHelper :: "SearchParameters Helper" where
  "exampleHelper = \<lparr>helper_state = \<lparr>hitsPerPage = Undefined\<rparr>, searches = []\<rparr>"

definition exampleCreateURL :: "SearchParameters \<Rightarrow> string" where
  "exampleCreateURL sp = (if hitsPerPage sp = Undefined then ''/'' else ''/?hitsPerPage'')"

definition emptyWorld :: "SearchParameters World" where
  "emptyWorld = \<lparr>console = [], renderFn_calls = [], unmountFn_calls = 0\<rparr>"

section \<open>Construction\<close>

text \<open>Two list facts for the count of default items.\<close>

lemma two_defaults:
  assumes "i < j" "j < length xs" "P (xs ! i)" "P (xs ! j)"
  shows "1 < length (filter P xs)"
proof -
  have split: "xs = take j xs @ drop j xs" by simp
  have "xs ! i \<in> set (take j xs)"
    using assms(1,2) by (metis in_set_conv_nth length_take min.absorb2 nth_take less_imp_le_nat)
  then have a: "filter P (take j xs) \<noteq> []"
    using assms(3) by (auto simp: filter_empty_conv)
  have "xs ! j \<in> set (drop j xs)"
    using assms(2) by (metis Cons_nth_drop_Suc list.set_intros(1))
  then have b: "filter P (drop j xs) \<noteq> []"
    using assms(4) by (auto simp: filter_empty_conv)
  have "length (filter P xs) = length (filter P (take j xs)) + length (filter P (drop j xs))"
    by (metis split filter_append length_append)
  moreover have "0 < length (filter P (take j xs))" using a by simp
  moreover have "0 < length (filter P (drop j xs))" using b by simp
  ultimately show ?thesis by linarith
qed

lemma one_default:
  assumes "P d" "\<forall>x\<in>set ys \<union> set zs. \<not> P x"
  shows "filter P (ys @ d # zs) = [d]"
  using assms by (simp add: filter_empty_conv)

text \<open>
  Claim C1. For every \<^verbatim>\<open>widgetParams\<close> the factory throws an error whose message
  went through \<^verbatim>\<open>withUsage\<close> when \<^verbatim>\<open>items\<close> is not an array, when no item
  has \<^verbatim>\<open>default === true\<close> and when two items at different positions have it; when
  exactly one item \<open>d\<close> has it the factory succeeds, the working list is the given
  list and \<open>d\<close> is kept as the default item.
\<close>

theorem connectHitsPerPage_validates:
  "(params_items params = NotArray v \<longrightarrow>
      connectHitsPerPage params =
        Inl (Error (withUsage ''The `items` option expects an array of objects.'')))
   \<and> (params_items params = Array xs \<and> (\<forall>x\<in>set xs. \<not> is_default x) \<longrightarrow>
      connectHitsPerPage params =
        Inl (Error (withUsage ''A default value must be specified in `items`.'')))
   \<and> (params_items params = Array xs \<and> i < j \<and> j < length xs \<and>
       is_default (xs ! i) \<and> is_default (xs ! j) \<longrightarrow>
      connectHitsPerPage params =
        Inl (Error (withUsage ''More than one default value is specified in `items`.'')))
   \<and> (params_items params = Array (ys @ d # zs) \<and> is_default d \<and>
       (\<forall>x\<in>set ys \<union> set zs. \<not> is_default x) \<longrightarrow>
      connectHitsPerPage params =
        Inr \<lparr>widgetParams = params, items = ys @ d # zs, defaultItem = d,
             setHitsPerPage_var = None, createURLFactory_var = None\<rparr>)"
proof (intro conjI impI)
  assume "params_items params = NotArray v"
  then show "connectHitsPerPage params =
        Inl (Error (withUsage ''The `items` option expects an array of objects.''))"
    by (simp add: connectHitsPerPage_def)
next
  assume a: "params_items params = Array xs \<and> (\<forall>x\<in>set xs. \<not> is_default x)"
  then have "filter is_default xs = []" by (simp add: filter_empty_conv)
  with a show "connectHitsPerPage params =
        Inl (Error (withUsage ''A default value must be specified in `items`.''))"
    by (simp add: connectHitsPerPage_def)
next
  assume a: "params_items params = Array xs \<and> i < j \<and> j < length xs \<and>
       is_default (xs ! i) \<and> is_default (xs ! j)"
  then have "1 < length (filter is_default xs)"
    by (intro two_defaults [of i j xs is_default]) simp_all
  then have "length (filter is_default xs) \<noteq> 0 \<and> 1 < length (filter is_default xs)"
    by linarith
  with a show "connectHitsPerPage params =
        Inl (Error (withUsage ''More than one default value is specified in `items`.''))"
    by (simp add: connectHitsPerPage_def Let_def)
next
  assume a: "params_items params = Array (ys @ d # zs) \<and> is_default d \<and>
       (\<forall>x\<in>set ys \<union> set zs. \<not> is_default x)"
  then have "filter is_default (ys @ d # zs) = [d]"
    by (intro one_default [of is_default d ys zs]) simp_all
  with a show "connectHitsPerPage params =
        Inr \<lparr>widgetParams = params, items = ys @ d # zs, defaultItem = d,
             setHitsPerPage_var = None, createURLFactory_var = None\<rparr>"
    by (simp add: connectHitsPerPage_def Let_def)
qed

text \<open>The four cases of C1 at concrete parameters; the last is the spec's example.\<close>

theorem connectHitsPerPage_validates_witness:
  "connectHitsPerPage \<lparr>params_items = NotArray Undefined, params_transformItems = None\<rparr> =
     (Inl (Error (withUsage ''The `items` option expects an array of objects.''))
        :: error + SearchParameters Widget)
   \<and> connectHitsPerPage \<lparr>params_items = Array [item12], params_transformItems = None\<rparr> =
     (Inl (Error (withUsage ''A default value must be specified in `items`.''))
        :: error + SearchParameters Widget)
   \<and> connectHitsPerPage \<lparr>params_items = Array [item6, item12, item6], params_transformItems = None\<rparr> =
     (Inl (Error (withUsage ''More than one default value is specified in `items`.''))
        :: error + SearchParameters Widget)
   \<and> connectHitsPerPage exampleParams = Inr exampleWidget"
proof -
  have d6: "is_default item6" and d12: "\<not> is_default item12"
    by (simp_all add: is_default_def item6_def item12_def strict_equals_def)
  have 1: "connectHitsPerPage \<lparr>params_items = NotArray Undefined, params_transformItems = None\<rparr> =
     (Inl (Error (withUsage ''The `items` option expects an array of objects.''))
        :: error + SearchParameters Widget)"
    by (rule connectHitsPerPage_validates
      [where params = "\<lparr>params_items = NotArray Undefined, params_transformItems = None\<rparr>"
         and v = Undefined, THEN conjunct1, THEN mp]) simp
  have 2: "connectHitsPerPage \<lparr>params_items = Array [item12], params_transformItems = None\<rparr> =
     (Inl (Error (withUsage ''A default value must be specified in `items`.''))
        :: error + SearchParameters Widget)"
    by (rule connectHitsPerPage_validates
      [where params = "\<lparr>params_items = Array [item12], params_transformItems = None\<rparr>"
         and xs = "[item12]", THEN conjunct2, THEN conjunct1, THEN mp]) (simp add: d12)
  have 3: "connectHitsPerPage \<lparr>params_items = Array [item6, item12, item6], params_transformItems = None\<rparr> =
     (Inl (Error (withUsage ''More than one default value is specified in `items`.''))
        :: error + SearchParameters Widget)"
    by (rule connectHitsPerPage_validates
      [where params = "\<lparr>params_items = Array [item6, item12, item6], params_transformItems = None\<rparr>"
         and xs = "[item6, item12, item6]" and i = 0 and j = 2,
       THEN conjunct2, THEN conjunct2, THEN conjunct1, THEN mp]) (simp add: d6)
  have 4: "connectHitsPerPage exampleParams = Inr exampleWidget"
    using connectHitsPerPage_validates
      [where params = exampleParams and ys = "[]" and d = item6 and zs = "[item12]",
       THEN conjunct2, THEN conjunct2, THEN conjunct2, THEN mp]
    by (simp add: exampleParams_def exampleWidget_def d6 d12)
  from 1 2 3 4 show ?thesis by blast
qed

section \<open>Normalisation\<close>

text \<open>
  Claim C6. For every current value and every working list, \<^verbatim>\<open>normalizeItems\<close>
  returns a list of the same length in which each item keeps its label, value and
  default and gains \<^verbatim>\<open>isRefined = (Number(item.value) === Number(hitsPerPage))\<close>; for
  the example items and the current value 12, the 12-item is refined and the 6-item
  is not.
\<close>

theorem normalizeItems_isRefined:
  "length (normalizeItems StringToNumber its state) = length its
   \<and> map rendered_label (normalizeItems StringToNumber its state) = map item_label its
   \<and> map rendered_value (normalizeItems StringToNumber its state) = map item_value its
   \<and> map rendered_default (normalizeItems StringToNumber its state) = map item_default its
   \<and> map isRefined (normalizeItems StringToNumber its state) =
       map (\<lambda>item. number_equals (Number StringToNumber (item_value item))
                                  (Number StringToNumber (hitsPerPage state))) its
   \<and> normalizeItems StringToNumber [item6, item12] \<lparr>hitsPerPage = Num (Finite 12)\<rparr> =
       [\<lparr>rendered_label = ''6'', rendered_value = Num (Finite 6),
          rendered_default = Boolean True, isRefined = False\<rparr>,
        \<lparr>rendered_label = ''12'', rendered_value = Num (Finite 12),
          rendered_default = Undefined, isRefined = True\<rparr>]"
  by (simp add: normalizeItems_def comp_def item6_def item12_def number_equals_def)

text \<open>C6 on the list that \<^verbatim>\<open>init\<close> has extended, for the current values 6, undefined and 0.\<close>

theorem normalizeItems_isRefined_witness:
  "map isRefined (normalizeItems StringToNumber_empty [emptyItem, item6, item12]
      \<lparr>hitsPerPage = Num (Finite 6)\<rparr>) = [False, True, False]
   \<and> map isRefined (normalizeItems StringToNumber_empty [emptyItem, item6, item12]
      \<lparr>hitsPerPage = Undefined\<rparr>) = [False, False, False]
   \<and> map isRefined (normalizeItems StringToNumber_empty [emptyItem, item6, item12]
      \<lparr>hitsPerPage = Num (Finite 0)\<rparr>) = [True, False, False]"
  using normalizeItems_isRefined [of StringToNumber_empty "[emptyItem, item6, item12]"
          "\<lparr>hitsPerPage = Num (Finite 6)\<rparr>"]
        normalizeItems_isRefined [of StringToNumber_empty "[emptyItem, item6, item12]"
          "\<lparr>hitsPerPage = Undefined\<rparr>"]
        normalizeItems_isRefined [of StringToNumber_empty "[emptyItem, item6, item12]"
          "\<lparr>hitsPerPage = Num (Finite 0)\<rparr>"]
  by (simp add: emptyItem_def item6_def item12_def number_equals_def StringToNumber_empty_def)

section \<open>Refining\<close>

text \<open>
  Claim C2. For every value passed to \<^verbatim>\<open>refine\<close>: the value 0 sets the helper's
  \<^verbatim>\<open>hitsPerPage\<close> to 0; every other falsy value sets it to undefined; every truthy
  value sets it to that value; and in all cases one search is started afterwards, with
  the parameters as just set.
\<close>

theorem setHitsPerPage_sets_and_searches:
  "(strict_equals v (Num (Finite 0)) \<longrightarrow>
      helper_state (setHitsPerPage v helper) = (helper_state helper)\<lparr>hitsPerPage := Num (Finite 0)\<rparr>)
   \<and> (\<not> truthy v \<and> \<not> strict_equals v (Num (Finite 0)) \<longrightarrow>
      helper_state (setHitsPerPage v helper) = (helper_state helper)\<lparr>hitsPerPage := Undefined\<rparr>)
   \<and> (truthy v \<longrightarrow>
      helper_state (setHitsPerPage v helper) = (helper_state helper)\<lparr>hitsPerPage := v\<rparr>)
   \<and> searches (setHitsPerPage v helper) =
       searches helper @ [helper_state (setHitsPerPage v helper)]"
  by (auto simp: setHitsPerPage_def search_def helper_setQueryParameter_def setQueryParameter_def
        strict_equals_def)

text \<open>C2 at the values 0, the empty string, undefined and 12.\<close>

theorem setHitsPerPage_sets_and_searches_witness:
  "setHitsPerPage (Num (Finite 0)) exampleHelper =
     \<lparr>helper_state = \<lparr>hitsPerPage = Num (Finite 0)\<rparr>, searches = [\<lparr>hitsPerPage = Num (Finite 0)\<rparr>]\<rparr>
   \<and> setHitsPerPage (Str []) (exampleHelper\<lparr>helper_state := \<lparr>hitsPerPage = Num (Finite 6)\<rparr>\<rparr>) =
     \<lparr>helper_state = \<lparr>hitsPerPage = Undefined\<rparr>, searches = [\<lparr>hitsPerPage = Undefined\<rparr>]\<rparr>
   \<and> setHitsPerPage Undefined (exampleHelper\<lparr>helper_state := \<lparr>hitsPerPage = Num (Finite 6)\<rparr>\<rparr>) =
     \<lparr>helper_state = \<lparr>hitsPerPage = Undefined\<rparr>, searches = [\<lparr>hitsPerPage = Undefined\<rparr>]\<rparr>
   \<and> setHitsPerPage (Num (Finite 12)) exampleHelper =
     \<lparr>helper_state = \<lparr>hitsPerPage = Num (Finite 12)\<rparr>, searches = [\<lparr>hitsPerPage = Num (Finite 12)\<rparr>]\<rparr>"
proof -
  let ?h6 = "exampleHelper\<lparr>helper_state := \<lparr>hitsPerPage = Num (Finite 6)\<rparr>\<rparr>"
  have e: "\<And>h k :: SearchParameters Helper.
      helper_state h = helper_state k \<Longrightarrow> searches h = searches k \<Longrightarrow> h = k"
    by simp
  have 1: "setHitsPerPage (Num (Finite 0)) exampleHelper =
     \<lparr>helper_state = \<lparr>hitsPerPage = Num (Finite 0)\<rparr>, searches = [\<lparr>hitsPerPage = Num (Finite 0)\<rparr>]\<rparr>"
    using setHitsPerPage_sets_and_searches [of "Num (Finite 0)" exampleHelper]
    by (intro e) (simp_all add: strict_equals_def exampleHelper_def)
  have 2: "setHitsPerPage (Str []) ?h6 =
     \<lparr>helper_state = \<lparr>hitsPerPage = Undefined\<rparr>, searches = [\<lparr>hitsPerPage = Undefined\<rparr>]\<rparr>"
    using setHitsPerPage_sets_and_searches [of "Str []" ?h6]
    by (intro e) (simp_all add: strict_equals_def exampleHelper_def)
  have 3: "setHitsPerPage Undefined ?h6 =
     \<lparr>helper_state = \<lparr>hitsPerPage = Undefined\<rparr>, searches = [\<lparr>hitsPerPage = Undefined\<rparr>]\<rparr>"
    using setHitsPerPage_sets_and_searches [of Undefined ?h6]
    by (intro e) (simp_all add: strict_equals_def exampleHelper_def)
  have 4: "setHitsPerPage (Num (Finite 12)) exampleHelper =
     \<lparr>helper_state = \<lparr>hitsPerPage = Num (Finite 12)\<rparr>, searches = [\<lparr>hitsPerPage = Num (Finite 12)\<rparr>]\<rparr>"
    using setHitsPerPage_sets_and_searches [of "Num (Finite 12)" exampleHelper]
    by (intro e) (simp_all add: strict_equals_def exampleHelper_def)
  from 1 2 3 4 show ?thesis by blast
qed

section \<open>Disposal\<close>

text \<open>
  Claim C8. For every state, \<^verbatim>\<open>dispose\<close> calls the unmount callback exactly once
  (and does nothing else to the surroundings) and returns that state with
  \<^verbatim>\<open>hitsPerPage\<close> set to undefined.
\<close>

theorem dispose_unmounts_and_clears:
  "unmountFn_calls (fst (dispose state world)) = unmountFn_calls world + 1
   \<and> console (fst (dispose state world)) = console world
   \<and> renderFn_calls (fst (dispose state world)) = renderFn_calls world
   \<and> snd (dispose state world) = state\<lparr>hitsPerPage := Undefined\<rparr>"
  by (simp add: dispose_def setQueryParameter_def)

text \<open>C8 for a state whose page size is 12.\<close>

theorem dispose_unmounts_and_clears_witness:
  "dispose \<lparr>hitsPerPage = Num (Finite 12)\<rparr> emptyWorld =
     (\<lparr>console = [], renderFn_calls = [], unmountFn_calls = 1\<rparr>, \<lparr>hitsPerPage = Undefined\<rparr>)"
proof -
  have e: "\<And>(p :: SearchParameters World \<times> SearchParameters) c r u s.
     unmountFn_calls (fst p) = u \<Longrightarrow> console (fst p) = c \<Longrightarrow> renderFn_calls (fst p) = r \<Longrightarrow>
     snd p = s \<Longrightarrow> p = (\<lparr>console = c, renderFn_calls = r, unmountFn_calls = u\<rparr>, s)"
    by (metis World.surjective old.unit.exhaust prod.collapse)
  show ?thesis
    using dispose_unmounts_and_clears [of "\<lparr>hitsPerPage = Num (Finite 12)\<rparr>" emptyWorld]
    by (intro e) (simp_all add: emptyWorld_def)
qed

section \<open>State import\<close>

text \<open>
  Claim C4 says that a value present in the \<^verbatim>\<open>uiState\<close> is the one that is set.
  With the example widget (default value 6) and a \<^verbatim>\<open>uiState\<close> whose
  \<^verbatim>\<open>hitsPerPage\<close> is present and NaN, or present and the empty string, the result
  holds 6 and not the value: the import takes these for an absent value, as the refine
  callback does when it clears the parameter for them.
\<close>

theorem getWidgetSearchParameters_counterexample:
  "uiState_hitsPerPage \<lparr>uiState_hitsPerPage = Num NaN\<rparr> \<noteq> Undefined
   \<and> hitsPerPage (getWidgetSearchParameters exampleWidget \<lparr>hitsPerPage = Undefined\<rparr>
         \<lparr>uiState_hitsPerPage = Num NaN\<rparr>) = Num (Finite 6)
   \<and> hitsPerPage (getWidgetSearchParameters exampleWidget \<lparr>hitsPerPage = Undefined\<rparr>
         \<lparr>uiState_hitsPerPage = Num NaN\<rparr>) \<noteq> Num NaN
   \<and> uiState_hitsPerPage \<lparr>uiState_hitsPerPage = Str []\<rparr> \<noteq> Undefined
   \<and> hitsPerPage (getWidgetSearchParameters exampleWidget \<lparr>hitsPerPage = Undefined\<rparr>
         \<lparr>uiState_hitsPerPage = Str []\<rparr>) = Num (Finite 6)
   \<and> hitsPerPage (getWidgetSearchParameters exampleWidget \<lparr>hitsPerPage = Undefined\<rparr>
         \<lparr>uiState_hitsPerPage = Str []\<rparr>) \<noteq> Str []"
  by (simp add: getWidgetSearchParameters_def setQueryParameters_def exampleWidget_def item6_def)

text \<open>
  Claim C4, amended. \<^verbatim>\<open>getWidgetSearchParameters\<close> returns the given search
  parameters with \<^verbatim>\<open>hitsPerPage\<close> set to the \<^verbatim>\<open>uiState\<close>'s value when that
  value is truthy, and to the default item's value when the field is absent
  (undefined) or holds a falsy value other than 0 (the values for which the refine
  callback clears the parameter); no other parameter of the returned state differs
  from the input. What the import does with the value 0 is not part of this statement.
\<close>

theorem getWidgetSearchParameters_truthy_or_default:
  "(truthy (uiState_hitsPerPage uiState) \<longrightarrow>
      getWidgetSearchParameters w searchParameters uiState =
        searchParameters\<lparr>hitsPerPage := uiState_hitsPerPage uiState\<rparr>)
   \<and> (uiState_hitsPerPage uiState = Undefined \<longrightarrow>
      getWidgetSearchParameters w searchParameters uiState =
        searchParameters\<lparr>hitsPerPage := item_value (defaultItem w)\<rparr>)
   \<and> (\<not> truthy (uiState_hitsPerPage uiState) \<and>
       \<not> strict_equals (uiState_hitsPerPage uiState) (Num (Finite 0)) \<longrightarrow>
      getWidgetSearchParameters w searchParameters uiState =
        searchParameters\<lparr>hitsPerPage := item_value (defaultItem w)\<rparr>)
   \<and> SearchParameters.more (getWidgetSearchParameters w searchParameters uiState) =
       SearchParameters.more searchParameters"
  by (simp add: getWidgetSearchParameters_def setQueryParameters_def)

text \<open>
  The amended C4 for a \<^verbatim>\<open>uiState\<close> value of 12, an absent one, the empty string
  and NaN.
\<close>

theorem getWidgetSearchParameters_truthy_or_default_witness:
  "getWidgetSearchParameters exampleWidget \<lparr>hitsPerPage = Undefined\<rparr>
     \<lparr>uiState_hitsPerPage = Num (Finite 12)\<rparr> = \<lparr>hitsPerPage = Num (Finite 12)\<rparr>
   \<and> getWidgetSearchParameters exampleWidget \<lparr>hitsPerPage = Num (Finite 12)\<rparr>
     \<lparr>uiState_hitsPerPage = Undefined\<rparr> = \<lparr>hitsPerPage = Num (Finite 6)\<rparr>
   \<and> getWidgetSearchParameters exampleWidget \<lparr>hitsPerPage = Num (Finite 12)\<rparr>
     \<lparr>uiState_hitsPerPage = Str []\<rparr> = \<lparr>hitsPerPage = Num (Finite 6)\<rparr>
   \<and> getWidgetSearchParameters exampleWidget \<lparr>hitsPerPage = Num (Finite 12)\<rparr>
     \<lparr>uiState_hitsPerPage = Num NaN\<rparr> = \<lparr>hitsPerPage = Num (Finite 6)\<rparr>"
proof -
  note t = getWidgetSearchParameters_truthy_or_default
    [where w = exampleWidget and searchParameters = "\<lparr>hitsPerPage = Num (Finite 12)\<rparr>"]
  have 1: "getWidgetSearchParameters exampleWidget \<lparr>hitsPerPage = Undefined\<rparr>
     \<lparr>uiState_hitsPerPage = Num (Finite 12)\<rparr> = \<lparr>hitsPerPage = Num (Finite 12)\<rparr>"
    using getWidgetSearchParameters_truthy_or_default
      [where w = exampleWidget and searchParameters = "\<lparr>hitsPerPage = Undefined\<rparr>"
         and uiState = "\<lparr>uiState_hitsPerPage = Num (Finite 12)\<rparr>", THEN conjunct1, THEN mp]
    by simp
  have 2: "getWidgetSearchParameters exampleWidget \<lparr>hitsPerPage = Num (Finite 12)\<rparr>
     \<lparr>uiState_hitsPerPage = Undefined\<rparr> = \<lparr>hitsPerPage = Num (Finite 6)\<rparr>"
    using t [where uiState = "\<lparr>uiState_hitsPerPage = Undefined\<rparr>",
             THEN conjunct2, THEN conjunct1, THEN mp]
    by (simp add: exampleWidget_def item6_def)
  have 3: "getWidgetSearchParameters exampleWidget \<lparr>hitsPerPage = Num (Finite 12)\<rparr>
     \<lparr>uiState_hitsPerPage = Str []\<rparr> = \<lparr>hitsPerPage = Num (Finite 6)\<rparr>"
    using t [where uiState = "\<lparr>uiState_hitsPerPage = Str []\<rparr>",
             THEN conjunct2, THEN conjunct2, THEN conjunct1, THEN mp]
    by (simp add: exampleWidget_def item6_def strict_equals_def)
  have 4: "getWidgetSearchParameters exampleWidget \<lparr>hitsPerPage = Num (Finite 12)\<rparr>
     \<lparr>uiState_hitsPerPage = Num NaN\<rparr> = \<lparr>hitsPerPage = Num (Finite 6)\<rparr>"
    using t [where uiState = "\<lparr>uiState_hitsPerPage = Num NaN\<rparr>",
             THEN conjunct2, THEN conjunct2, THEN conjunct1, THEN mp]
    by (simp add: exampleWidget_def item6_def strict_equals_def)
  from 1 2 3 4 show ?thesis by (intro conjI)
qed

text \<open>
  Claim C9. For a \<^verbatim>\<open>uiState\<close> whose \<^verbatim>\<open>hitsPerPage\<close> is present and equal to 0,
  \<^verbatim>\<open>getWidgetSearchParameters\<close> sets \<^verbatim>\<open>hitsPerPage\<close> to the default item's
  value: the fallback takes every falsy value for an absent one, while the refine
  callback keeps 0.
\<close>

theorem getWidgetSearchParameters_zero_falls_back:
  "(strict_equals (uiState_hitsPerPage uiState) (Num (Finite 0)) \<longrightarrow>
      getWidgetSearchParameters w searchParameters uiState =
        searchParameters\<lparr>hitsPerPage := item_value (defaultItem w)\<rparr>)
   \<and> (\<not> truthy (uiState_hitsPerPage uiState) \<longrightarrow>
      hitsPerPage (getWidgetSearchParameters w searchParameters uiState) =
        item_value (defaultItem w))
   \<and> hitsPerPage (helper_state (setHitsPerPage (Num (Finite 0)) helper)) = Num (Finite 0)"
  by (auto simp: getWidgetSearchParameters_def setQueryParameters_def strict_equals_def
        setHitsPerPage_def search_def helper_setQueryParameter_def setQueryParameter_def)

text \<open>C9 on the example widget, for 0 and for null, beside \<^verbatim>\<open>refine(0)\<close>.\<close>

theorem getWidgetSearchParameters_zero_falls_back_witness:
  "getWidgetSearchParameters exampleWidget \<lparr>hitsPerPage = Num (Finite 12)\<rparr>
     \<lparr>uiState_hitsPerPage = Num (Finite 0)\<rparr> = \<lparr>hitsPerPage = Num (Finite 6)\<rparr>
   \<and> hitsPerPage (getWidgetSearchParameters exampleWidget \<lparr>hitsPerPage = Num (Finite 12)\<rparr>
     \<lparr>uiState_hitsPerPage = Null\<rparr>) = Num (Finite 6)
   \<and> hitsPerPage (helper_state (setHitsPerPage (Num (Finite 0)) exampleHelper)) = Num (Finite 0)"
  using getWidgetSearchParameters_zero_falls_back
          [of "\<lparr>uiState_hitsPerPage = Num (Finite 0)\<rparr>" exampleWidget
              "\<lparr>hitsPerPage = Num (Finite 12)\<rparr>" exampleHelper]
        getWidgetSearchParameters_zero_falls_back
          [of "\<lparr>uiState_hitsPerPage = Null\<rparr>" exampleWidget
              "\<lparr>hitsPerPage = Num (Finite 12)\<rparr>" exampleHelper]
  by (simp add: exampleWidget_def item6_def strict_equals_def)

section \<open>State export\<close>

text \<open>
  Claim C5. \<^verbatim>\<open>getWidgetState\<close> returns the given \<^verbatim>\<open>uiState\<close> unchanged when the
  search parameters' \<^verbatim>\<open>hitsPerPage\<close> is undefined or equals (\<^verbatim>\<open>===\<close>) the default
  item's value, and otherwise returns the \<^verbatim>\<open>uiState\<close> with its \<^verbatim>\<open>hitsPerPage\<close>
  field set to the current value.
\<close>

theorem getWidgetState_omits_default:
  "(hitsPerPage searchParameters = Undefined \<longrightarrow>
      getWidgetState w uiState searchParameters = uiState)
   \<and> (strict_equals (hitsPerPage searchParameters) (item_value (defaultItem w)) \<longrightarrow>
      getWidgetState w uiState searchParameters = uiState)
   \<and> (hitsPerPage searchParameters \<noteq> Undefined \<and>
       \<not> strict_equals (hitsPerPage searchParameters) (item_value (defaultItem w)) \<longrightarrow>
      getWidgetState w uiState searchParameters =
        uiState\<lparr>uiState_hitsPerPage := hitsPerPage searchParameters\<rparr>)"
  by (auto simp: getWidgetState_def strict_equals_def Let_def)

text \<open>C5 on the example widget for the current values undefined, 6 (the default) and 12.\<close>

theorem getWidgetState_omits_default_witness:
  "getWidgetState exampleWidget \<lparr>uiState_hitsPerPage = Undefined\<rparr> \<lparr>hitsPerPage = Undefined\<rparr> =
     \<lparr>uiState_hitsPerPage = Undefined\<rparr>
   \<and> getWidgetState exampleWidget \<lparr>uiState_hitsPerPage = Undefined\<rparr> \<lparr>hitsPerPage = Num (Finite 6)\<rparr> =
     \<lparr>uiState_hitsPerPage = Undefined\<rparr>
   \<and> getWidgetState exampleWidget \<lparr>uiState_hitsPerPage = Undefined\<rparr> \<lparr>hitsPerPage = Num (Finite 12)\<rparr> =
     \<lparr>uiState_hitsPerPage = Num (Finite 12)\<rparr>"
  using getWidgetState_omits_default
          [of "\<lparr>hitsPerPage = Undefined\<rparr>" exampleWidget "\<lparr>uiState_hitsPerPage = Undefined\<rparr>"]
        getWidgetState_omits_default
          [of "\<lparr>hitsPerPage = Num (Finite 6)\<rparr>" exampleWidget "\<lparr>uiState_hitsPerPage = Undefined\<rparr>"]
        getWidgetState_omits_default
          [of "\<lparr>hitsPerPage = Num (Finite 12)\<rparr>" exampleWidget "\<lparr>uiState_hitsPerPage = Undefined\<rparr>"]
  by (simp add: exampleWidget_def item6_def strict_equals_def)

section \<open>Initialisation and the life of an instance\<close>

text \<open>What \<^verbatim>\<open>init\<close> leaves behind, field by field.\<close>

lemma not_default_emptyItem: "\<not> is_default emptyItem"
  by (simp add: is_default_def emptyItem_def strict_equals_def)

lemma init_items:
  "items (fst (init sn w helper cu state world)) =
     (if isCurrentInOptions sn (items w) state then items w else emptyItem # items w)"
  by (simp add: init_def Let_def)

lemma init_console:
  "console (snd (init sn w helper cu state world)) =
     (if isCurrentInOptions sn (items w) state then console world
      else console world
           @ (if hitsPerPage state = Undefined then [HitsPerPageNotDefined] else [])
           @ [HitsPerPageNotInItems (hitsPerPage state)])"
  by (simp add: init_def Let_def warning_def strict_equals_def)

lemma init_defaultItem: "defaultItem (fst (init sn w helper cu state world)) = defaultItem w"
  by (simp add: init_def Let_def)

lemma init_factory: "createURLFactory_var (fst (init sn w helper cu state world)) \<noteq> None"
  by (simp add: init_def Let_def)

text \<open>
  What one hook does to the closure's variables: only \<^verbatim>\<open>init\<close> touches the working
  list, and it can only put the empty item in front; the default item never changes;
  the URL factory, once assigned, stays assigned.
\<close>

lemma step_items:
  "items (fst (step sn s h)) =
     (case h of
        Init helper cu state \<Rightarrow>
          if isCurrentInOptions sn (items (fst s)) state then items (fst s)
          else emptyItem # items (fst s)
      | _ \<Rightarrow> items (fst s))"
  by (cases s; cases h) (simp_all add: init_items split: sum.splits)

lemma step_not_Init_items: "\<not> is_Init h \<Longrightarrow> items (fst (step sn s h)) = items (fst s)"
  by (cases h) (simp_all add: step_items)

lemma step_items_cases:
  "items (fst (step sn s h)) = items (fst s) \<or> items (fst (step sn s h)) = emptyItem # items (fst s)"
  by (cases h) (simp_all add: step_items)

lemma step_defaultItem: "defaultItem (fst (step sn s h)) = defaultItem (fst s)"
  by (cases s; cases h) (simp_all add: init_defaultItem split: sum.splits)

lemma step_factory:
  "createURLFactory_var (fst s) \<noteq> None \<Longrightarrow> createURLFactory_var (fst (step sn s h)) \<noteq> None"
  by (cases s; cases h) (simp_all add: init_factory split: sum.splits)

text \<open>The same over any sequence of hooks.\<close>

lemma run_Nil: "run sn s [] = s"
  by (simp add: run_def)

lemma run_Cons: "run sn s (h # hs) = run sn (step sn s h) hs"
  by (simp add: run_def)

lemma run_items:
  "\<exists>n. items (fst (run sn s hs)) = replicate n emptyItem @ items (fst s)"
proof (induction hs arbitrary: s)
  case Nil
  have "items (fst s) = replicate 0 emptyItem @ items (fst s)" by simp
  then show ?case unfolding run_Nil by (rule exI)
next
  case (Cons h hs)
  obtain n where n: "items (fst (run sn (step sn s h) hs)) =
      replicate n emptyItem @ items (fst (step sn s h))"
    using Cons.IH by blast
  from step_items_cases [of sn s h] show ?case
  proof
    assume "items (fst (step sn s h)) = items (fst s)"
    with n have "items (fst (run sn s (h # hs))) = replicate n emptyItem @ items (fst s)"
      by (simp add: run_Cons)
    then show ?thesis by (rule exI)
  next
    assume "items (fst (step sn s h)) = emptyItem # items (fst s)"
    with n have "items (fst (run sn s (h # hs))) = replicate (Suc n) emptyItem @ items (fst s)"
      by (simp add: run_Cons replicate_append_same)
    then show ?thesis by (rule exI)
  qed
qed

lemma run_not_Init_items:
  "\<forall>h\<in>set hs. \<not> is_Init h \<Longrightarrow> items (fst (run sn s hs)) = items (fst s)"
  by (induction hs arbitrary: s) (simp_all add: run_Nil run_Cons step_not_Init_items)

lemma run_defaultItem: "defaultItem (fst (run sn s hs)) = defaultItem (fst s)"
  by (induction hs arbitrary: s) (simp_all add: run_Nil run_Cons step_defaultItem)

lemma run_factory:
  "createURLFactory_var (fst s) \<noteq> None \<Longrightarrow> createURLFactory_var (fst (run sn s hs)) \<noteq> None"
proof (induction hs arbitrary: s)
  case Nil
  then show ?case by (simp add: run_Nil)
next
  case (Cons h hs)
  from Cons.prems have "createURLFactory_var (fst (step sn s h)) \<noteq> None"
    by (rule step_factory)
  then show ?case unfolding run_Cons by (rule Cons.IH)
qed

text \<open>The default items of a working list, and of the list a successful construction starts with.\<close>

lemma filter_replicate_emptyItem:
  "filter is_default (replicate n emptyItem @ xs) = filter is_default xs"
  by (induction n) (simp_all add: not_default_emptyItem)

lemma connectHitsPerPage_one_default:
  assumes "connectHitsPerPage params = Inr w"
  shows "filter is_default (items w) = [defaultItem w]"
proof -
  obtain xs where xs: "params_items params = Array xs"
    using assms by (cases "params_items params") (simp_all add: connectHitsPerPage_def)
  let ?ds = "filter is_default xs"
  have ok: "length ?ds \<noteq> 0 \<and> \<not> 1 < length ?ds"
    using assms xs by (simp add: connectHitsPerPage_def Let_def split: if_splits)
  then have len: "length ?ds = 1" by linarith
  have w: "items w = xs" "defaultItem w = ?ds ! 0"
    using assms xs by (auto simp: connectHitsPerPage_def Let_def split: if_splits)
  from len have "?ds = [?ds ! 0]"
    by (cases ?ds) simp_all
  with w show ?thesis by simp
qed

text \<open>
  Claim C3 says that two warnings fire whenever the state's value is not among the
  items. With the example items and the state value 24, which is defined and not
  among them, \<^verbatim>\<open>init\<close> emits one warning only: the first call is
  \<^verbatim>\<open>warning(true, ...)\<close> and stays silent.
\<close>

theorem init_counterexample:
  "\<not> isCurrentInOptions StringToNumber_empty (items exampleWidget) \<lparr>hitsPerPage = Num (Finite 24)\<rparr>
   \<and> console (snd (init StringToNumber_empty exampleWidget exampleHelper exampleCreateURL
         \<lparr>hitsPerPage = Num (Finite 24)\<rparr> emptyWorld)) = [HitsPerPageNotInItems (Num (Finite 24))]
   \<and> length (console (snd (init StringToNumber_empty exampleWidget exampleHelper exampleCreateURL
         \<lparr>hitsPerPage = Num (Finite 24)\<rparr> emptyWorld))) \<noteq> 2"
  by (simp add: init_def Let_def isCurrentInOptions_def exampleWidget_def item6_def item12_def
        number_equals_def warning_def strict_equals_def emptyWorld_def)

text \<open>
  Claim C3, amended. At \<^verbatim>\<open>init\<close>, whenever the state's \<^verbatim>\<open>hitsPerPage\<close> is not
  numerically equal (after \<^verbatim>\<open>Number\<close>) to any item's value, the warning that the
  items do not hold the state's value fires, preceded by the warning that
  \<^verbatim>\<open>hitsPerPage\<close> is not defined exactly when the state's value is undefined (and an
  undefined value is never among the items), and the item with empty-string value and
  empty label is put in front of the working list. The list stays extended over every
  later sequence of hooks: it is unchanged as long as \<^verbatim>\<open>init\<close> is not called again,
  and a later \<^verbatim>\<open>init\<close> can only put further empty items in front. When the state's
  value matches some item, no warning fires and the list is unchanged.
\<close>

theorem init_unlisted_value_recovery:
  "((\<forall>item\<in>set (items w). \<not> number_equals (Number sn (hitsPerPage state))
                                             (Number sn (item_value item))) \<longrightarrow>
      console (snd (init sn w helper cu state world)) =
        console world
        @ (if hitsPerPage state = Undefined then [HitsPerPageNotDefined] else [])
        @ [HitsPerPageNotInItems (hitsPerPage state)]
      \<and> items (fst (init sn w helper cu state world)) = emptyItem # items w)
   \<and> ((\<exists>item\<in>set (items w). number_equals (Number sn (hitsPerPage state))
                                            (Number sn (item_value item))) \<longrightarrow>
      console (snd (init sn w helper cu state world)) = console world
      \<and> items (fst (init sn w helper cu state world)) = items w)
   \<and> (hitsPerPage state = Undefined \<longrightarrow>
      (\<forall>item\<in>set (items w). \<not> number_equals (Number sn (hitsPerPage state))
                                             (Number sn (item_value item))))
   \<and> (\<exists>n. items (fst (run sn (init sn w helper cu state world) hooks)) =
           replicate n emptyItem @ items (fst (init sn w helper cu state world)))
   \<and> ((\<forall>h\<in>set hooks. \<not> is_Init h) \<longrightarrow>
      items (fst (run sn (init sn w helper cu state world) hooks)) =
        items (fst (init sn w helper cu state world)))"
proof -
  have cur: "isCurrentInOptions sn (items w) state =
      (\<exists>item\<in>set (items w). number_equals (Number sn (hitsPerPage state))
                                            (Number sn (item_value item)))"
    by (simp add: isCurrentInOptions_def list_ex_iff)
  have 1: "(\<forall>item\<in>set (items w). \<not> number_equals (Number sn (hitsPerPage state))
                                             (Number sn (item_value item))) \<longrightarrow>
      console (snd (init sn w helper cu state world)) =
        console world
        @ (if hitsPerPage state = Undefined then [HitsPerPageNotDefined] else [])
        @ [HitsPerPageNotInItems (hitsPerPage state)]
      \<and> items (fst (init sn w helper cu state world)) = emptyItem # items w"
    by (simp add: init_items init_console cur)
  have 2: "(\<exists>item\<in>set (items w). number_equals (Number sn (hitsPerPage state))
                                            (Number sn (item_value item))) \<longrightarrow>
      console (snd (init sn w helper cu state world)) = console world
      \<and> items (fst (init sn w helper cu state world)) = items w"
    by (simp add: init_items init_console cur)
  have 3: "hitsPerPage state = Undefined \<longrightarrow>
      (\<forall>item\<in>set (items w). \<not> number_equals (Number sn (hitsPerPage state))
                                             (Number sn (item_value item)))"
    by (simp add: number_equals_def)
  have 4: "\<exists>n. items (fst (run sn (init sn w helper cu state world) hooks)) =
           replicate n emptyItem @ items (fst (init sn w helper cu state world))"
    by (rule run_items)
  have 5: "(\<forall>h\<in>set hooks. \<not> is_Init h) \<longrightarrow>
      items (fst (run sn (init sn w helper cu state world) hooks)) =
        items (fst (init sn w helper cu state world))"
    by (simp add: run_not_Init_items)
  from 1 2 3 4 5 show ?thesis by (intro conjI)
qed

text \<open>
  The amended C3 on the example widget: an undefined state value (two warnings), the
  state value 12 (none), and the extended list after a render, a state export and a
  dispose.
\<close>

theorem init_unlisted_value_recovery_witness:
  "console (snd (init StringToNumber_empty exampleWidget exampleHelper exampleCreateURL
       \<lparr>hitsPerPage = Undefined\<rparr> emptyWorld)) =
     [HitsPerPageNotDefined, HitsPerPageNotInItems Undefined]
   \<and> items (fst (init StringToNumber_empty exampleWidget exampleHelper exampleCreateURL
       \<lparr>hitsPerPage = Undefined\<rparr> emptyWorld)) = [emptyItem, item6, item12]
   \<and> console (snd (init StringToNumber_empty exampleWidget exampleHelper exampleCreateURL
       \<lparr>hitsPerPage = Num (Finite 12)\<rparr> emptyWorld)) = []
   \<and> items (fst (init StringToNumber_empty exampleWidget exampleHelper exampleCreateURL
       \<lparr>hitsPerPage = Num (Finite 12)\<rparr> emptyWorld)) = [item6, item12]
   \<and> items (fst (run StringToNumber_empty
        (init StringToNumber_empty exampleWidget exampleHelper exampleCreateURL
           \<lparr>hitsPerPage = Undefined\<rparr> emptyWorld)
        [Render \<lparr>hitsPerPage = Num (Finite 12)\<rparr> \<lparr>nbHits = Num (Finite 0)\<rparr>,
         GetWidgetState \<lparr>uiState_hitsPerPage = Undefined\<rparr> \<lparr>hitsPerPage = Num (Finite 12)\<rparr>,
         Dispose \<lparr>hitsPerPage = Num (Finite 12)\<rparr>])) = [emptyItem, item6, item12]"
proof -
  let ?hooks = "[Render \<lparr>hitsPerPage = Num (Finite 12)\<rparr> \<lparr>nbHits = Num (Finite 0)\<rparr>,
         GetWidgetState \<lparr>uiState_hitsPerPage = Undefined\<rparr> \<lparr>hitsPerPage = Num (Finite 12)\<rparr>,
         Dispose \<lparr>hitsPerPage = Num (Finite 12)\<rparr>]"
  note u = init_unlisted_value_recovery
    [where sn = StringToNumber_empty and w = exampleWidget and helper = exampleHelper
       and cu = exampleCreateURL and state = "\<lparr>hitsPerPage = Undefined\<rparr>" and world = emptyWorld
       and hooks = ?hooks]
  note t = init_unlisted_value_recovery
    [where sn = StringToNumber_empty and w = exampleWidget and helper = exampleHelper
       and cu = exampleCreateURL and state = "\<lparr>hitsPerPage = Num (Finite 12)\<rparr>"
       and world = emptyWorld and hooks = ?hooks]
  have no: "\<forall>item\<in>set (items exampleWidget).
      \<not> number_equals (Number StringToNumber_empty (hitsPerPage \<lparr>hitsPerPage = Undefined\<rparr>))
                       (Number StringToNumber_empty (item_value item))"
    by (simp add: number_equals_def)
  have yes: "\<exists>item\<in>set (items exampleWidget).
      number_equals (Number StringToNumber_empty (hitsPerPage \<lparr>hitsPerPage = Num (Finite 12)\<rparr>))
                    (Number StringToNumber_empty (item_value item))"
    by (simp add: number_equals_def exampleWidget_def item12_def)
  have hooks: "\<forall>h\<in>set ?hooks. \<not> is_Init h"
    by simp
  from u [THEN conjunct1, THEN mp, OF no]
  have 1: "console (snd (init StringToNumber_empty exampleWidget exampleHelper exampleCreateURL
       \<lparr>hitsPerPage = Undefined\<rparr> emptyWorld)) =
     [HitsPerPageNotDefined, HitsPerPageNotInItems Undefined]"
    and 2: "items (fst (init StringToNumber_empty exampleWidget exampleHelper exampleCreateURL
       \<lparr>hitsPerPage = Undefined\<rparr> emptyWorld)) = [emptyItem, item6, item12]"
    by (simp_all add: emptyWorld_def exampleWidget_def)
  from t [THEN conjunct2, THEN conjunct1, THEN mp, OF yes]
  have 3: "console (snd (init StringToNumber_empty exampleWidget exampleHelper exampleCreateURL
       \<lparr>hitsPerPage = Num (Finite 12)\<rparr> emptyWorld)) = []"
    and 4: "items (fst (init StringToNumber_empty exampleWidget exampleHelper exampleCreateURL
       \<lparr>hitsPerPage = Num (Finite 12)\<rparr> emptyWorld)) = [item6, item12]"
    by (simp_all add: emptyWorld_def exampleWidget_def)
  from u [THEN conjunct2, THEN conjunct2, THEN conjunct2, THEN conjunct2, THEN mp, OF hooks] 2
  have 5: "items (fst (run StringToNumber_empty
        (init StringToNumber_empty exampleWidget exampleHelper exampleCreateURL
           \<lparr>hitsPerPage = Undefined\<rparr> emptyWorld) ?hooks)) = [emptyItem, item6, item12]"
    by simp
  from 1 2 3 4 5 show ?thesis by (intro conjI)
qed

section \<open>Rendering\<close>

text \<open>
  Claim C7. \<^verbatim>\<open>init\<close> calls the rendering function exactly once, with
  \<^verbatim>\<open>isFirstRender = true\<close> and \<^verbatim>\<open>hasNoResults = true\<close> (it is given no results at
  all); after \<^verbatim>\<open>init\<close> and any further hooks, \<^verbatim>\<open>render\<close> succeeds and calls the
  rendering function exactly once, with \<^verbatim>\<open>isFirstRender = false\<close> and
  \<^verbatim>\<open>hasNoResults = (results.nbHits === 0)\<close>. (A \<^verbatim>\<open>render\<close> that comes before any
  \<^verbatim>\<open>init\<close> raises a TypeError instead.)
\<close>

theorem renderFn_called_once:
  "(\<exists>opts. renderFn_calls (snd (init sn w helper cu state world)) =
             renderFn_calls world @ [(opts, True)] \<and> hasNoResults opts = True)
   \<and> (\<exists>opts world2.
         render sn (fst (run sn (init sn w helper cu state world) hooks)) later_state results
                (snd (run sn (init sn w helper cu state world) hooks)) = Inr world2
         \<and> renderFn_calls world2 =
             renderFn_calls (snd (run sn (init sn w helper cu state world) hooks))
             @ [(opts, False)]
         \<and> hasNoResults opts = strict_equals (nbHits results) (Num (Finite 0)))
   \<and> (createURLFactory_var w = None \<longrightarrow> render sn w later_state results world = Inl TypeError)"
proof (intro conjI)
  show "\<exists>opts. renderFn_calls (snd (init sn w helper cu state world)) =
             renderFn_calls world @ [(opts, True)] \<and> hasNoResults opts = True"
    by (simp add: init_def Let_def)
next
  let ?s = "run sn (init sn w helper cu state world) hooks"
  have "createURLFactory_var (fst ?s) \<noteq> None"
    by (rule run_factory) (rule init_factory)
  then obtain f where f: "createURLFactory_var (fst ?s) = Some f"
    by blast
  show "\<exists>opts world2.
         render sn (fst ?s) later_state results (snd ?s) = Inr world2
         \<and> renderFn_calls world2 = renderFn_calls (snd ?s) @ [(opts, False)]
         \<and> hasNoResults opts = strict_equals (nbHits results) (Num (Finite 0))"
    by (simp add: render_def Let_def f)
next
  show "createURLFactory_var w = None \<longrightarrow> render sn w later_state results world = Inl TypeError"
    by (simp add: render_def Let_def)
qed

text \<open>
  C7 on the example widget: the call made by \<^verbatim>\<open>init\<close>, then the calls on record after
  a render with no hits and a render with three hits, and a render before \<^verbatim>\<open>init\<close>.
\<close>

theorem renderFn_called_once_witness:
  "map (\<lambda>call. (hasNoResults (fst call), snd call))
     (renderFn_calls (snd (init StringToNumber_empty exampleWidget exampleHelper exampleCreateURL
        \<lparr>hitsPerPage = Num (Finite 12)\<rparr> emptyWorld))) = [(True, True)]
   \<and> (case render StringToNumber_empty
          (fst (run StringToNumber_empty
             (init StringToNumber_empty exampleWidget exampleHelper exampleCreateURL
                \<lparr>hitsPerPage = Num (Finite 12)\<rparr> emptyWorld)
             [Render \<lparr>hitsPerPage = Num (Finite 12)\<rparr> \<lparr>nbHits = Num (Finite 0)\<rparr>]))
          \<lparr>hitsPerPage = Num (Finite 6)\<rparr> \<lparr>nbHits = Num (Finite 3)\<rparr>
          (snd (run StringToNumber_empty
             (init StringToNumber_empty exampleWidget exampleHelper exampleCreateURL
                \<lparr>hitsPerPage = Num (Finite 12)\<rparr> emptyWorld)
             [Render \<lparr>hitsPerPage = Num (Finite 12)\<rparr> \<lparr>nbHits = Num (Finite 0)\<rparr>])) of
        Inl e \<Rightarrow> []
      | Inr world2 \<Rightarrow>
          map (\<lambda>call. (map isRefined (rendering_items (fst call)), hasNoResults (fst call), snd call))
            (renderFn_calls world2)) =
       [([False, True], True, True), ([False, True], True, False), ([True, False], False, False)]
   \<and> render StringToNumber_empty exampleWidget \<lparr>hitsPerPage = Num (Finite 6)\<rparr>
         \<lparr>nbHits = Num (Finite 3)\<rparr> emptyWorld = Inl TypeError"
proof -
  note t = renderFn_called_once
    [where sn = StringToNumber_empty and w = exampleWidget and helper = exampleHelper
       and cu = exampleCreateURL and state = "\<lparr>hitsPerPage = Num (Finite 12)\<rparr>"
       and world = emptyWorld and later_state = "\<lparr>hitsPerPage = Num (Finite 6)\<rparr>"
       and results = "\<lparr>nbHits = Num (Finite 3)\<rparr>"
       and hooks = "[Render \<lparr>hitsPerPage = Num (Finite 12)\<rparr> \<lparr>nbHits = Num (Finite 0)\<rparr>]"]
  have none: "createURLFactory_var exampleWidget = None"
    by (simp add: exampleWidget_def)
  have 3: "render StringToNumber_empty exampleWidget \<lparr>hitsPerPage = Num (Finite 6)\<rparr>
         \<lparr>nbHits = Num (Finite 3)\<rparr> emptyWorld = Inl TypeError"
    by (rule t [THEN conjunct2, THEN conjunct2, THEN mp, OF none])
  have 1: "map (\<lambda>call. (hasNoResults (fst call), snd call))
     (renderFn_calls (snd (init StringToNumber_empty exampleWidget exampleHelper exampleCreateURL
        \<lparr>hitsPerPage = Num (Finite 12)\<rparr> emptyWorld))) = [(True, True)]"
    using t [THEN conjunct1] by (auto simp: emptyWorld_def)
  have 2: "(case render StringToNumber_empty
          (fst (run StringToNumber_empty
             (init StringToNumber_empty exampleWidget exampleHelper exampleCreateURL
                \<lparr>hitsPerPage = Num (Finite 12)\<rparr> emptyWorld)
             [Render \<lparr>hitsPerPage = Num (Finite 12)\<rparr> \<lparr>nbHits = Num (Finite 0)\<rparr>]))
          \<lparr>hitsPerPage = Num (Finite 6)\<rparr> \<lparr>nbHits = Num (Finite 3)\<rparr>
          (snd (run StringToNumber_empty
             (init StringToNumber_empty exampleWidget exampleHelper exampleCreateURL
                \<lparr>hitsPerPage = Num (Finite 12)\<rparr> emptyWorld)
             [Render \<lparr>hitsPerPage = Num (Finite 12)\<rparr> \<lparr>nbHits = Num (Finite 0)\<rparr>])) of
        Inl e \<Rightarrow> []
      | Inr world2 \<Rightarrow>
          map (\<lambda>call. (map isRefined (rendering_items (fst call)), hasNoResults (fst call), snd call))
            (renderFn_calls world2)) =
       [([False, True], True, True), ([False, True], True, False), ([True, False], False, False)]"
    by (simp add: run_def init_def render_def Let_def isCurrentInOptions_def exampleWidget_def
          exampleParams_def transformItems_def normalizeItems_def item6_def item12_def
          number_equals_def strict_equals_def emptyWorld_def)
  from 1 2 3 show ?thesis by (intro conjI)
qed

section \<open>The default item\<close>

text \<open>
  Claim C10. If construction succeeds, then after every sequence of hooks the working
  list holds exactly one item with \<^verbatim>\<open>default === true\<close>, the default item chosen at
  construction, which never changes: the item that \<^verbatim>\<open>init\<close> puts in front has no
  default flag.
\<close>

theorem one_default_throughout:
  "connectHitsPerPage params = Inr w \<longrightarrow>
     filter is_default (items (fst (run sn (w, world) hooks))) = [defaultItem w]
     \<and> length (filter is_default (items (fst (run sn (w, world) hooks)))) = 1
     \<and> defaultItem (fst (run sn (w, world) hooks)) = defaultItem w
     \<and> \<not> is_default emptyItem"
proof
  assume c: "connectHitsPerPage params = Inr w"
  obtain n where n: "items (fst (run sn (w, world) hooks)) = replicate n emptyItem @ items w"
    using run_items [of sn "(w, world)" hooks] by auto
  have f: "filter is_default (items (fst (run sn (w, world) hooks))) = [defaultItem w]"
    by (simp only: n filter_replicate_emptyItem connectHitsPerPage_one_default [OF c])
  have d: "defaultItem (fst (run sn (w, world) hooks)) = defaultItem w"
    by (simp add: run_defaultItem)
  from f d not_default_emptyItem
  show "filter is_default (items (fst (run sn (w, world) hooks))) = [defaultItem w]
     \<and> length (filter is_default (items (fst (run sn (w, world) hooks)))) = 1
     \<and> defaultItem (fst (run sn (w, world) hooks)) = defaultItem w
     \<and> \<not> is_default emptyItem"
    by simp
qed

text \<open>
  C10 on the example widget, through two calls of \<^verbatim>\<open>init\<close> that each extend the list.
\<close>

theorem one_default_throughout_witness:
  "connectHitsPerPage exampleParams = Inr exampleWidget
   \<and> items (fst (run StringToNumber_empty (exampleWidget, emptyWorld)
        [Init exampleHelper exampleCreateURL \<lparr>hitsPerPage = Num (Finite 24)\<rparr>,
         Render \<lparr>hitsPerPage = Num (Finite 24)\<rparr> \<lparr>nbHits = Num (Finite 3)\<rparr>,
         GetWidgetState \<lparr>uiState_hitsPerPage = Undefined\<rparr> \<lparr>hitsPerPage = Num (Finite 24)\<rparr>,
         Init exampleHelper exampleCreateURL \<lparr>hitsPerPage = Undefined\<rparr>,
         Dispose \<lparr>hitsPerPage = Undefined\<rparr>])) = [emptyItem, emptyItem, item6, item12]
   \<and> filter is_default (items (fst (run StringToNumber_empty (exampleWidget, emptyWorld)
        [Init exampleHelper exampleCreateURL \<lparr>hitsPerPage = Num (Finite 24)\<rparr>,
         Render \<lparr>hitsPerPage = Num (Finite 24)\<rparr> \<lparr>nbHits = Num (Finite 3)\<rparr>,
         GetWidgetState \<lparr>uiState_hitsPerPage = Undefined\<rparr> \<lparr>hitsPerPage = Num (Finite 24)\<rparr>,
         Init exampleHelper exampleCreateURL \<lparr>hitsPerPage = Undefined\<rparr>,
         Dispose \<lparr>hitsPerPage = Undefined\<rparr>]))) = [item6]"
proof -
  let ?hooks = "[Init exampleHelper exampleCreateURL \<lparr>hitsPerPage = Num (Finite 24)\<rparr>,
         Render \<lparr>hitsPerPage = Num (Finite 24)\<rparr> \<lparr>nbHits = Num (Finite 3)\<rparr>,
         GetWidgetState \<lparr>uiState_hitsPerPage = Undefined\<rparr> \<lparr>hitsPerPage = Num (Finite 24)\<rparr>,
         Init exampleHelper exampleCreateURL \<lparr>hitsPerPage = Undefined\<rparr>,
         Dispose \<lparr>hitsPerPage = Undefined\<rparr>]"
  have d6: "is_default item6" and d12: "\<not> is_default item12"
    by (simp_all add: is_default_def item6_def item12_def strict_equals_def)
  have c: "connectHitsPerPage exampleParams = Inr exampleWidget"
    by (simp add: connectHitsPerPage_def exampleParams_def exampleWidget_def d6 d12)
  have i: "items (fst (run StringToNumber_empty (exampleWidget, emptyWorld) ?hooks)) =
      [emptyItem, emptyItem, item6, item12]"
    by (simp add: run_Cons run_Nil step_items init_items isCurrentInOptions_def exampleWidget_def
          item6_def item12_def emptyItem_def number_equals_def StringToNumber_empty_def)
  from one_default_throughout
    [where params = exampleParams and w = exampleWidget and sn = StringToNumber_empty
       and world = emptyWorld and hooks = ?hooks, THEN mp, OF c]
  have "filter is_default (items (fst (run StringToNumber_empty (exampleWidget, emptyWorld) ?hooks))) =
      [item6]"
    by (simp add: exampleWidget_def)
  with c i show ?thesis by (intro conjI)
qed

end
